theory Spec2Isabelle
  imports Main
begin

section \<open>Go regular expressions: the fragment used by lib/issues.go\<close>

text \<open>
  The translator of lib/issues.go is a pipeline of \<^verbatim>\<open>regexp.ReplaceAllString\<close> calls.
  The patterns of the source use literals, the classes \<^verbatim>\<open>.\<close>, \<^verbatim>\<open>[\s\S]\<close>, \<^verbatim>\<open>\w\<close> and
  \<^verbatim>\<open>\s\<close>, the line anchors of the flag \<^verbatim>\<open>m\<close>, capture groups, and \<^verbatim>\<open>*\<close> and \<^verbatim>\<open>+\<close>
  over one class, greedy or (under the flag \<^verbatim>\<open>U\<close>) lazy. A pattern is a sequence of
  items; a string is a list of characters.
\<close>

datatype cclass = CChar char | CDot | CAll | CWord | CSpace

definition is_word :: "char \<Rightarrow> bool" where
  "is_word x = (let n = (of_char x :: nat) in
     (48 \<le> n \<and> n \<le> 57) \<or> (65 \<le> n \<and> n \<le> 90) \<or> (97 \<le> n \<and> n \<le> 122) \<or> n = 95)"

definition is_space :: "char \<Rightarrow> bool" where
  "is_space x = (let n = (of_char x :: nat) in n = 9 \<or> n = 10 \<or> n = 12 \<or> n = 13 \<or> n = 32)"

fun cmatch :: "cclass \<Rightarrow> char \<Rightarrow> bool" where
  "cmatch (CChar c) x = (x = c)"
| "cmatch CDot x = (x \<noteq> CHR 0x0A)"
| "cmatch CAll x = True"
| "cmatch CWord x = is_word x"
| "cmatch CSpace x = is_space x"

datatype item = One cclass | Many cclass bool | Bol | Eol | Open nat | Close nat

text \<open>
  The state of one match attempt: the text consumed since the start of the match (group
  0), the offsets at which groups were opened, and the text of the groups closed so far.
\<close>

record mstate =
  consumed :: string
  opens :: "(nat \<times> nat) list"
  caps :: "(nat \<times> string) list"

definition mstate0 :: mstate where
  "mstate0 = \<lparr>consumed = [], opens = [], caps = []\<rparr>"

definition eat :: "char \<Rightarrow> mstate \<Rightarrow> mstate" where
  "eat x st = st\<lparr>consumed := consumed st @ [x]\<rparr>"

definition open_group :: "nat \<Rightarrow> mstate \<Rightarrow> mstate" where
  "open_group n st = st\<lparr>opens := (n, length (consumed st)) # opens st\<rparr>"

definition close_group :: "nat \<Rightarrow> mstate \<Rightarrow> mstate" where
  "close_group n st =
     (case map_of (opens st) n of
        None \<Rightarrow> st
      | Some b \<Rightarrow> st\<lparr>caps := (n, drop b (consumed st)) # caps st\<rparr>)"

text \<open>
  \<open>run r p s st\<close> matches the pattern \<open>r\<close> at the head of \<open>s\<close>, where \<open>p\<close> is the character
  before \<open>s\<close> in the whole text (\<open>None\<close> at its start). The first alternative that a
  backtracking matcher would find is returned, which is the leftmost-first match of Go's
  regexp package: a greedy star tries one more character before it tries the rest of the
  pattern, a lazy star the other way round.
\<close>

fun run :: "item list \<Rightarrow> char option \<Rightarrow> string \<Rightarrow> mstate \<Rightarrow> mstate option" where
  "run [] p s st = Some st"
| "run (One c # r) p [] st = None"
| "run (One c # r) p (x # xs) st =
     (if cmatch c x then run r (Some x) xs (eat x st) else None)"
| "run (Many c g # r) p [] st = run r p [] st"
| "run (Many c g # r) p (x # xs) st =
     (if g then
        (case (if cmatch c x then run (Many c g # r) (Some x) xs (eat x st) else None) of
           Some st' \<Rightarrow> Some st'
         | None \<Rightarrow> run r p (x # xs) st)
      else
        (case run r p (x # xs) st of
           Some st' \<Rightarrow> Some st'
         | None \<Rightarrow> (if cmatch c x then run (Many c g # r) (Some x) xs (eat x st) else None)))"
| "run (Bol # r) p s st =
     (if p = None \<or> p = Some (CHR 0x0A) then run r p s st else None)"
| "run (Eol # r) p s st =
     (case s of
        [] \<Rightarrow> run r p s st
      | x # xs \<Rightarrow> (if x = CHR 0x0A then run r p s st else None))"
| "run (Open n # r) p s st = run r p s (open_group n st)"
| "run (Close n # r) p s st = run r p s (close_group n st)"

subsection \<open>Replacement templates (Regexp.Expand)\<close>

definition is_name_char :: "char \<Rightarrow> bool" where
  "is_name_char x = is_word x"

definition is_digit :: "char \<Rightarrow> bool" where
  "is_digit x = (let n = (of_char x :: nat) in 48 \<le> n \<and> n \<le> 57)"

definition digits_value :: "string \<Rightarrow> nat" where
  "digits_value name = foldl (\<lambda>num d. num * 10 + (of_char d - 48)) 0 name"

text \<open>
  The text a template variable stands for. A name that is a decimal number without a
  leading zero is a group index; any other name is the name of a group, and no pattern of
  the source names a group, so it stands for the empty text. A group that does not exist
  or did not take part in the match stands for the empty text as well.
\<close>

definition group_text :: "string \<Rightarrow> mstate \<Rightarrow> string" where
  "group_text name st =
     (if name \<noteq> [] \<and> list_all is_digit name \<and> \<not> (hd name = CHR ''0'' \<and> length name > 1) then
        (if digits_value name = 0 then consumed st
         else (case map_of (caps st) (digits_value name) of None \<Rightarrow> [] | Some t \<Rightarrow> t))
      else [])"

text \<open>
  \<open>expand m tpl st\<close> scans the template. In the mode \<open>None\<close> it copies text and looks for
  \<^verbatim>\<open>$\<close>; in the mode \<open>Some (brace, name)\<close> it is reading a variable name, which is taken as
  long as possible: \<^verbatim>\<open>$1x\<close> is the variable \<^verbatim>\<open>1x\<close>, not \<^verbatim>\<open>$1\<close> followed by \<^verbatim>\<open>x\<close>. A
  malformed variable leaves the \<^verbatim>\<open>$\<close> as text.
\<close>

fun expand :: "(bool \<times> string) option \<Rightarrow> string \<Rightarrow> mstate \<Rightarrow> string" where
  "expand None [] st = []"
| "expand None (c # t) st =
     (if c = CHR ''$'' then
        (case t of
           [] \<Rightarrow> [CHR ''$'']
         | d # t' \<Rightarrow>
             (if d = CHR ''$'' then CHR ''$'' # expand None t' st
              else if d = CHR ''{'' then expand (Some (True, [])) t' st
              else if is_name_char d then expand (Some (False, [])) t st
              else CHR ''$'' # expand None t st))
      else c # expand None t st)"
| "expand (Some (brace, name)) [] st =
     (if brace then CHR ''$'' # CHR ''{'' # name else group_text name st)"
| "expand (Some (brace, name)) (c # t) st =
     (if is_name_char c then expand (Some (brace, name @ [c])) t st
      else if brace then
        (if c = CHR ''}'' \<and> name \<noteq> [] then group_text name st @ expand None t st
         else CHR ''$'' # CHR ''{'' # name @ expand None (c # t) st)
      else group_text name st @ expand None (c # t) st)"

subsection \<open>ReplaceAllString\<close>

text \<open>
  The loop of \<^verbatim>\<open>Regexp.replaceAll\<close>, position by position: \<open>p\<close> is the previous character,
  \<open>k\<close> the number of characters still covered by the last match, and \<open>ae\<close> tells whether
  an empty match may be replaced here (not directly after another match).
\<close>

fun replace_loop :: "item list \<Rightarrow> string \<Rightarrow> char option \<Rightarrow> nat \<Rightarrow> bool \<Rightarrow> string \<Rightarrow> string" where
  "replace_loop re tpl p 0 ae [] =
     (case run re p [] mstate0 of
        Some st \<Rightarrow> (if ae then expand None tpl st else [])
      | None \<Rightarrow> [])"
| "replace_loop re tpl p (Suc k) ae [] = []"
| "replace_loop re tpl p (Suc k) ae (x # xs) = replace_loop re tpl (Some x) k False xs"
| "replace_loop re tpl p 0 ae (x # xs) =
     (case run re p (x # xs) mstate0 of
        None \<Rightarrow> x # replace_loop re tpl (Some x) 0 True xs
      | Some st \<Rightarrow>
          (case consumed st of
             [] \<Rightarrow> (if ae then expand None tpl st else []) @
                    x # replace_loop re tpl (Some x) 0 True xs
           | y # m \<Rightarrow> expand None tpl st @ replace_loop re tpl (Some x) (length m) False xs))"

definition ReplaceAllString :: "item list \<Rightarrow> string \<Rightarrow> string \<Rightarrow> string" where
  "ReplaceAllString re src repl = replace_loop re repl None 0 True src"

subsection \<open>The patterns of lib/issues.go\<close>

definition lits :: "string \<Rightarrow> item list" where
  "lits s = map (\<lambda>c. One (CChar c)) s"

definition bq :: char where
  "bq = CHR 0x60"

definition nl :: char where
  "nl = CHR 0x0A"

definition bsl :: char where
  "bsl = CHR 0x5C"

definition regexH6 :: "item list" where
  "regexH6 = Bol # lits ''###### '' @ [Open 1, Many CDot True, Close 1, Eol]"

definition regexH5 :: "item list" where
  "regexH5 = Bol # lits ''##### '' @ [Open 1, Many CDot True, Close 1, Eol]"

definition regexH4 :: "item list" where
  "regexH4 = Bol # lits ''#### '' @ [Open 1, Many CDot True, Close 1, Eol]"

definition regexH3 :: "item list" where
  "regexH3 = Bol # lits ''### '' @ [Open 1, Many CDot True, Close 1, Eol]"

definition regexH2 :: "item list" where
  "regexH2 = Bol # lits ''## '' @ [Open 1, Many CDot True, Close 1, Eol]"

definition regexH1 :: "item list" where
  "regexH1 = Bol # lits ''# '' @ [Open 1, Many CDot True, Close 1, Eol]"

definition regexStrong1 :: "item list" where
  "regexStrong1 = lits ''**'' @ [Open 1, Many CAll False, Close 1] @ lits ''**''"

definition regexStrong2 :: "item list" where
  "regexStrong2 = lits ''__'' @ [Open 1, Many CAll False, Close 1] @ lits ''__''"

definition regexEmphasis1 :: "item list" where
  "regexEmphasis1 = lits ''*'' @ [Open 1, Many CAll False, Close 1] @ lits ''*''"

definition regexEmphasis2 :: "item list" where
  "regexEmphasis2 = lits ''_'' @ [Open 1, Many CAll False, Close 1] @ lits ''_''"

definition regexCitation :: "item list" where
  "regexCitation = lits ''<cite>'' @ [Open 1, Many CAll False, Close 1] @ lits ''<cite>''"

definition regexDeleted :: "item list" where
  "regexDeleted = lits ''~~'' @ [Open 1, One CAll, Close 1] @ lits ''~~''"

definition regexInserted :: "item list" where
  "regexInserted = lits ''<ins>'' @ [Open 1, Many CAll False, Close 1] @ lits ''<ins>''"

definition regexSuperscript :: "item list" where
  "regexSuperscript = lits ''<sup>'' @ [Open 1, Many CAll False, Close 1] @ lits ''<sup>''"

definition regexSubscript :: "item list" where
  "regexSubscript = lits ''<sub>'' @ [Open 1, Many CAll False, Close 1] @ lits ''<sub>''"

definition regexMonospaced :: "item list" where
  "regexMonospaced = [One (CChar bq), Open 1, Many CAll False, Close 1, One (CChar bq)]"

definition regexQuote :: "item list" where
  "regexQuote = [Bol, One (CChar (CHR ''>'')), One CSpace, Many CSpace True,
                 Open 1, Many CDot True, Close 1, Eol]"

definition regexImage :: "item list" where
  "regexImage = lits ''!['' @ [Open 1, Many CDot False, Close 1] @ lits '']('' @
                [Open 2, Many CDot False, Close 2] @ lits '')''"

definition regexURL :: "item list" where
  "regexURL = lits ''<'' @ [Open 1, Many CDot False, Close 1] @ lits ''>''"

definition regexAltURL :: "item list" where
  "regexAltURL = lits ''['' @ [Open 1, Many CDot False, Close 1] @ lits '']('' @
                 [Open 2, Many CDot False, Close 2] @ lits '')''"

definition regexCode :: "item list" where
  "regexCode = Bol # lits [bq, bq, bq] @ [Open 1, One CWord, Many CWord False, Close 1, Eol,
               One (CChar nl), Open 2, Many CAll False, Close 2, One (CChar nl), Bol] @
               lits [bq, bq, bq]"

definition regexNoFormat :: "item list" where
  "regexNoFormat = Bol # lits [bq, bq, bq] @ [Eol, One (CChar nl), Open 1, Many CAll False,
                   Close 1, One (CChar nl), Bol] @ lits [bq, bq, bq]"

text \<open>
  The translator, in the four groups of rules that the source marks with comments. The
  last two templates are raw string literals in the source, so their \<^verbatim>\<open>\n\<close> is a
  backslash followed by the letter n, not a line feed.
\<close>

definition Headings :: "string \<Rightarrow> string" where
  "Headings body0 =
     (let body = ReplaceAllString regexH6 body0 ''h6. $1'';
          body = ReplaceAllString regexH5 body ''h5. $1'';
          body = ReplaceAllString regexH4 body ''h3. $1'';
          body = ReplaceAllString regexH3 body ''h3. $1'';
          body = ReplaceAllString regexH2 body ''h2. $1'';
          body = ReplaceAllString regexH1 body ''h1. $1''
      in body)"

definition TextEffects :: "string \<Rightarrow> string" where
  "TextEffects body0 =
     (let body = ReplaceAllString regexStrong1 body0 ''*$1*'';
          body = ReplaceAllString regexStrong2 body ''*$1*'';
          body = ReplaceAllString regexEmphasis1 body ''_$1_'';
          body = ReplaceAllString regexEmphasis2 body ''_$1_'';
          body = ReplaceAllString regexCitation body ''??$1??'';
          body = ReplaceAllString regexDeleted body ''-$1-'';
          body = ReplaceAllString regexInserted body ''+$1+'';
          body = ReplaceAllString regexSuperscript body ''^$1^'';
          body = ReplaceAllString regexSubscript body ''~$1~'';
          body = ReplaceAllString regexMonospaced body ''{{$1}}'';
          body = ReplaceAllString regexQuote body ''bq. $1''
      in body)"

definition Links :: "string \<Rightarrow> string" where
  "Links body0 =
     (let body = ReplaceAllString regexImage body0 ''!$2|width=600!'';
          body = ReplaceAllString regexURL body ''[$1]'';
          body = ReplaceAllString regexAltURL body ''[$1|$2]''
      in body)"

definition AdvancedFormatting :: "string \<Rightarrow> string" where
  "AdvancedFormatting body0 =
     (let body = ReplaceAllString regexCode body0
                   (''{code:$1}'' @ [bsl, CHR ''n''] @ ''$2'' @ [bsl, CHR ''n''] @ ''{code}'');
          body = ReplaceAllString regexNoFormat body
                   (''{noformat}'' @ [bsl, CHR ''n''] @ ''$2'' @ [bsl, CHR ''n''] @ ''{noformat}'')
      in body)"

definition GitHubToJiraBody :: "string \<Rightarrow> string" where
  "GitHubToJiraBody body = AdvancedFormatting (Links (TextEffects (Headings body)))"

section \<open>The data model\<close>

text \<open>
  Go errors are values; \<open>None\<close> of type \<open>error option\<close> is the nil error. A nil
  pointer dereference is a panic, which ends the whole run: \<open>Panic\<close>.
\<close>

datatype error = Error string

datatype 'a outcome = Panic | Ret 'a

text \<open>
  The fields of a GitHub issue are pointers in go-github, \<open>None\<close> being nil. The getters
  return the zero value on nil; a plain dereference panics.
\<close>

record github_label =
  label_Name :: "string option"

record github_user =
  user_Login :: "string option"

record github_issue =
  issue_ID :: "int option"
  issue_Number :: "int option"
  issue_Title :: "string option"
  issue_Body :: "string option"
  issue_State :: "string option"
  issue_User :: "github_user option"
  issue_Labels :: "github_label list"

record TranslatedIssue =
  Issue :: github_issue
  TranslatedBody :: "string option"

definition GetID :: "github_issue \<Rightarrow> int" where
  "GetID i = (case issue_ID i of None \<Rightarrow> 0 | Some n \<Rightarrow> n)"

definition GetNumber :: "github_issue \<Rightarrow> int" where
  "GetNumber i = (case issue_Number i of None \<Rightarrow> 0 | Some n \<Rightarrow> n)"

definition GetTitle :: "github_issue \<Rightarrow> string" where
  "GetTitle i = (case issue_Title i of None \<Rightarrow> [] | Some t \<Rightarrow> t)"

definition GetState :: "github_issue \<Rightarrow> string" where
  "GetState i = (case issue_State i of None \<Rightarrow> [] | Some t \<Rightarrow> t)"

definition GetLogin :: "github_user option \<Rightarrow> string" where
  "GetLogin u = (case u of None \<Rightarrow> [] | Some v \<Rightarrow> (case user_Login v of None \<Rightarrow> [] | Some t \<Rightarrow> t))"

definition GetName :: "github_label \<Rightarrow> string" where
  "GetName l = (case label_Name l of None \<Rightarrow> [] | Some t \<Rightarrow> t)"

definition GetTranslatedBody :: "TranslatedIssue \<Rightarrow> string" where
  "GetTranslatedBody i = (case TranslatedBody i of None \<Rightarrow> [] | Some t \<Rightarrow> t)"

definition NewTranslatedIssue :: "github_issue \<Rightarrow> TranslatedIssue outcome" where
  "NewTranslatedIssue issue =
     (case issue_Body issue of
        None \<Rightarrow> Panic
      | Some b \<Rightarrow> Ret \<lparr>Issue = issue, TranslatedBody = Some (GitHubToJiraBody b)\<rparr>)"

text \<open>
  The custom fields of a JIRA issue are a map from field keys to decoded JSON values.
  \<open>JInt n\<close> is a number that reads as the integer \<open>n\<close>, \<open>JOther\<close> any value that is
  neither a string nor a number. The two readers are those of the map type of the JIRA
  client library: they return the zero value together with an error when the key is
  absent or the value has another type.
\<close>

datatype jvalue = JString string | JInt int | JOther

type_synonym unknowns = "(string \<times> jvalue) list"

definition Unknowns_String :: "unknowns \<Rightarrow> string \<Rightarrow> string \<times> error option" where
  "Unknowns_String m key =
     (case map_of m key of
        None \<Rightarrow> ([], Some (Error ''is not set''))
      | Some (JString s) \<Rightarrow> (s, None)
      | Some _ \<Rightarrow> ([], Some (Error ''is expected to be a string'')))"

definition Unknowns_Int :: "unknowns \<Rightarrow> string \<Rightarrow> int \<times> error option" where
  "Unknowns_Int m key =
     (case map_of m key of
        None \<Rightarrow> (0, Some (Error ''is not set''))
      | Some (JInt n) \<Rightarrow> (n, None)
      | Some _ \<Rightarrow> (0, Some (Error ''is expected to be a number'')))"

fun Unknowns_set :: "string \<Rightarrow> jvalue \<Rightarrow> unknowns \<Rightarrow> unknowns" where
  "Unknowns_set k v [] = [(k, v)]"
| "Unknowns_set k v ((k', v') # m) =
     (if k' = k then (k, v) # m else (k', v') # Unknowns_set k v m)"

record jira_issue_type =
  type_Name :: string

record jira_project =
  project_ID :: string
  project_Key :: string

record jira_fields =
  fields_Type :: jira_issue_type
  fields_Project :: jira_project
  fields_Summary :: string
  fields_Description :: string
  fields_Unknowns :: unknowns

record jira_issue =
  jira_Key :: string
  jira_ID :: string
  jira_Fields :: "jira_fields option"

subsection \<open>Configuration\<close>

datatype fieldKey =
  GitHubID | GitHubNumber | GitHubLabels | GitHubStatus | GitHubReporter | LastISUpdate

record field_ids =
  githubID :: string
  githubNumber :: string
  githubLabels :: string
  githubReporter :: string
  githubStatus :: string
  lastUpdate :: string

record config =
  fieldIDs :: field_ids
  projects :: "(string \<times> jira_project) list"

fun GetFieldID :: "config \<Rightarrow> fieldKey \<Rightarrow> string" where
  "GetFieldID c GitHubID = githubID (fieldIDs c)"
| "GetFieldID c GitHubNumber = githubNumber (fieldIDs c)"
| "GetFieldID c GitHubLabels = githubLabels (fieldIDs c)"
| "GetFieldID c GitHubReporter = githubReporter (fieldIDs c)"
| "GetFieldID c GitHubStatus = githubStatus (fieldIDs c)"
| "GetFieldID c LastISUpdate = lastUpdate (fieldIDs c)"

definition GetFieldKey :: "config \<Rightarrow> fieldKey \<Rightarrow> string" where
  "GetFieldKey c key = ''customfield_'' @ GetFieldID c key"

definition GetProject :: "config \<Rightarrow> string \<Rightarrow> jira_project" where
  "GetProject c repo =
     (case map_of (projects c) repo of
        None \<Rightarrow> \<lparr>project_ID = [], project_Key = []\<rparr>
      | Some p \<Rightarrow> p)"

subsection \<open>The trackers, the comment reconciler and the log\<close>

text \<open>
  Every call to a collaborator and every log line is an event, recorded with the answer
  the collaborator gave. The run threads the list of events so far; a collaborator
  answers as a function of that history and of the arguments of the call.
\<close>

datatype log_entry =
    Debug_Collecting
  | Info_NoIssues
  | Debug_CollectedJIRA
  | Errorf_Updating string error
  | Errorf_Creating int error
  | Debugf_Comparing int string
  | Debugf_AnyDifferences bool
  | Debugf_Updating string int
  | Debugf_Updated string
  | Debugf_UpToDate string
  | Debugf_FailedRetrieve string
  | Debugf_Creating int
  | Debugf_Created string

datatype event =
    GH_ListIssues "error + github_issue list"
  | JIRA_ListIssues "int list" "error + jira_issue list"
  | JIRA_CreateIssue jira_issue "error + jira_issue"
  | JIRA_UpdateIssue jira_issue "error + jira_issue"
  | JIRA_GetIssue string "error + jira_issue"
  | Compare_Comments github_issue jira_issue "error option"
  | Log log_entry

record env =
  gh_ListIssues :: "event list \<Rightarrow> error + github_issue list"
  gh_GetRepo :: string
  jira_ListIssues :: "event list \<Rightarrow> int list \<Rightarrow> error + jira_issue list"
  jira_CreateIssue :: "event list \<Rightarrow> jira_issue \<Rightarrow> error + jira_issue"
  jira_UpdateIssue :: "event list \<Rightarrow> jira_issue \<Rightarrow> error + jira_issue"
  jira_GetIssue :: "event list \<Rightarrow> string \<Rightarrow> error + jira_issue"
  CompareComments :: "event list \<Rightarrow> github_issue \<Rightarrow> jira_issue \<Rightarrow> error option"
  time_Now :: "event list \<Rightarrow> string"

section \<open>Reconciliation\<close>

fun Join :: "string list \<Rightarrow> string \<Rightarrow> string" where
  "Join [] sep = []"
| "Join [x] sep = x"
| "Join (x # y # r) sep = x @ sep @ Join (y # r) sep"

text \<open>The loops that copy \<^verbatim>\<open>*l.Name\<close> of every label: a nil name panics.\<close>

fun label_names :: "github_label list \<Rightarrow> string list outcome" where
  "label_names [] = Ret []"
| "label_names (l # ls) =
     (case label_Name l of
        None \<Rightarrow> Panic
      | Some n \<Rightarrow> (case label_names ls of Panic \<Rightarrow> Panic | Ret ns \<Rightarrow> Ret (n # ns)))"

text \<open>The test \<^verbatim>\<open>err != nil || *p != field\<close>: the pointer is read only when \<open>err\<close> is nil.\<close>

definition unreadable_or_differs :: "error option \<Rightarrow> string option \<Rightarrow> string \<Rightarrow> bool outcome" where
  "unreadable_or_differs err p field =
     (if err \<noteq> None then Ret True
      else (case p of None \<Rightarrow> Panic | Some v \<Rightarrow> Ret (v \<noteq> field)))"

text \<open>The pointer \<^verbatim>\<open>ghIssue.User.Login\<close>: reading it panics when \<open>User\<close> or \<open>Login\<close> is nil.\<close>

definition User_Login :: "github_issue \<Rightarrow> string option" where
  "User_Login i = (case issue_User i of None \<Rightarrow> None | Some u \<Rightarrow> user_Login u)"

definition DidIssueChange ::
  "config \<Rightarrow> TranslatedIssue \<Rightarrow> jira_issue \<Rightarrow> event list \<Rightarrow> bool outcome \<times> event list" where
  "DidIssueChange config ghIssue jIssue tr0 =
     (let tr = tr0 @ [Log (Debugf_Comparing (GetNumber (Issue ghIssue)) (jira_Key jIssue))] in
      case jira_Fields jIssue of
        None \<Rightarrow> (Panic, tr)
      | Some jf \<Rightarrow>
          (let anyDifferent = (GetTitle (Issue ghIssue) \<noteq> fields_Summary jf);
               anyDifferent = (anyDifferent \<or> GetTranslatedBody ghIssue \<noteq> fields_Description jf);
               (field, err) = Unknowns_String (fields_Unknowns jf) (GetFieldKey config GitHubStatus)
           in case unreadable_or_differs err (issue_State (Issue ghIssue)) field of
                Panic \<Rightarrow> (Panic, tr)
              | Ret d1 \<Rightarrow>
                  (let anyDifferent = (if d1 then True else anyDifferent);
                       (field, err) = Unknowns_String (fields_Unknowns jf)
                                        (GetFieldKey config GitHubReporter)
                   in case unreadable_or_differs err (User_Login (Issue ghIssue)) field of
                        Panic \<Rightarrow> (Panic, tr)
                      | Ret d2 \<Rightarrow>
                          (let anyDifferent = (if d2 then True else anyDifferent) in
                           case label_names (issue_Labels (Issue ghIssue)) of
                             Panic \<Rightarrow> (Panic, tr)
                           | Ret labels \<Rightarrow>
                               (let (field, err) = Unknowns_String (fields_Unknowns jf)
                                                     (GetFieldKey config GitHubLabels);
                                    anyDifferent =
                                      (if err \<noteq> None \<and> Join labels '','' \<noteq> field then True
                                       else anyDifferent)
                                in (Ret anyDifferent,
                                    tr @ [Log (Debugf_AnyDifferences anyDifferent)]))))))"

text \<open>
  \<open>UpdateIssue\<close> first writes (when the issues differ), then reads the issue back and
  hands over to the comment reconciler. \<open>UpdateIssue_write\<close> is the \<^verbatim>\<open>if\<close> statement of
  the source: \<open>Some r\<close> is its early return, \<open>None\<close> falls through to the read.
\<close>

definition UpdateIssue_write ::
  "config \<Rightarrow> env \<Rightarrow> TranslatedIssue \<Rightarrow> jira_issue \<Rightarrow> bool \<Rightarrow> event list \<Rightarrow>
   error option outcome option \<times> event list" where
  "UpdateIssue_write config e ghIssue jIssue changed tr =
     (if changed then
        (case jira_Fields jIssue of
           None \<Rightarrow> (Some Panic, tr)
         | Some jf \<Rightarrow>
             (let unknowns = Unknowns_set (GetFieldKey config GitHubStatus)
                               (JString (GetState (Issue ghIssue))) [];
                  unknowns = Unknowns_set (GetFieldKey config GitHubReporter)
                               (JString (GetLogin (issue_User (Issue ghIssue)))) unknowns;
                  labels = map GetName (issue_Labels (Issue ghIssue));
                  unknowns = Unknowns_set (GetFieldKey config GitHubLabels)
                               (JString (Join labels '','')) unknowns;
                  unknowns = Unknowns_set (GetFieldKey config LastISUpdate)
                               (JString (time_Now e tr)) unknowns;
                  fields = \<lparr>fields_Type = fields_Type jf,
                            fields_Project = \<lparr>project_ID = [], project_Key = []\<rparr>,
                            fields_Summary = GetTitle (Issue ghIssue),
                            fields_Description = GetTranslatedBody ghIssue,
                            fields_Unknowns = unknowns\<rparr>;
                  issue = \<lparr>jira_Key = jira_Key jIssue, jira_ID = jira_ID jIssue,
                           jira_Fields = Some fields\<rparr>;
                  r = jira_UpdateIssue e tr issue;
                  tr = tr @ [JIRA_UpdateIssue issue r]
              in case r of
                   Inl err \<Rightarrow> (Some (Ret (Some err)), tr)
                 | Inr issue' \<Rightarrow> (None, tr @ [Log (Debugf_Updated (jira_Key jIssue))])))
      else (None, tr @ [Log (Debugf_UpToDate (jira_Key jIssue))]))"

definition UpdateIssue ::
  "config \<Rightarrow> env \<Rightarrow> TranslatedIssue \<Rightarrow> jira_issue \<Rightarrow> event list \<Rightarrow>
   error option outcome \<times> event list" where
  "UpdateIssue config e ghIssue jIssue tr0 =
     (case issue_Number (Issue ghIssue) of
        None \<Rightarrow> (Panic, tr0)
      | Some number \<Rightarrow>
          (case DidIssueChange config ghIssue jIssue
                  (tr0 @ [Log (Debugf_Updating (jira_Key jIssue) number)]) of
             (Panic, tr) \<Rightarrow> (Panic, tr)
           | (Ret changed, tr) \<Rightarrow>
               (case UpdateIssue_write config e ghIssue jIssue changed tr of
                  (Some r, tr) \<Rightarrow> (r, tr)
                | (None, tr) \<Rightarrow>
                    (let r = jira_GetIssue e tr (jira_Key jIssue);
                         tr = tr @ [JIRA_GetIssue (jira_Key jIssue) r]
                     in case r of
                          Inl err \<Rightarrow>
                            (Ret (Some err), tr @ [Log (Debugf_FailedRetrieve (jira_Key jIssue))])
                        | Inr issue \<Rightarrow>
                            (let c = CompareComments e tr (Issue ghIssue) issue
                             in (Ret c, tr @ [Compare_Comments (Issue ghIssue) issue c]))))))"

definition CreateIssue ::
  "config \<Rightarrow> env \<Rightarrow> TranslatedIssue \<Rightarrow> event list \<Rightarrow> error option outcome \<times> event list" where
  "CreateIssue config e issue tr0 =
     (case issue_Number (Issue issue) of
        None \<Rightarrow> (Panic, tr0)
      | Some number \<Rightarrow>
          (let tr = tr0 @ [Log (Debugf_Creating number)];
               unknowns = Unknowns_set (GetFieldKey config GitHubID) (JInt (GetID (Issue issue))) [];
               unknowns = Unknowns_set (GetFieldKey config GitHubNumber)
                            (JInt (GetNumber (Issue issue))) unknowns;
               unknowns = Unknowns_set (GetFieldKey config GitHubStatus)
                            (JString (GetState (Issue issue))) unknowns;
               unknowns = Unknowns_set (GetFieldKey config GitHubReporter)
                            (JString (GetLogin (issue_User (Issue issue)))) unknowns
           in case label_names (issue_Labels (Issue issue)) of
                Panic \<Rightarrow> (Panic, tr)
              | Ret strs \<Rightarrow>
                  (let unknowns = Unknowns_set (GetFieldKey config GitHubLabels)
                                    (JString (Join strs '','')) unknowns;
                       unknowns = Unknowns_set (GetFieldKey config LastISUpdate)
                                    (JString (time_Now e tr)) unknowns;
                       fields = \<lparr>fields_Type = \<lparr>type_Name = ''Task''\<rparr>,
                                 fields_Project = GetProject config (gh_GetRepo e),
                                 fields_Summary = GetTitle (Issue issue),
                                 fields_Description = GetTranslatedBody issue,
                                 fields_Unknowns = unknowns\<rparr>;
                       jIssue = \<lparr>jira_Key = [], jira_ID = [], jira_Fields = Some fields\<rparr>;
                       r = jira_CreateIssue e tr jIssue;
                       tr = tr @ [JIRA_CreateIssue jIssue r]
                   in case r of
                        Inl err \<Rightarrow> (Ret (Some err), tr)
                      | Inr created \<Rightarrow>
                          (let r = jira_GetIssue e tr (jira_Key created);
                               tr = tr @ [JIRA_GetIssue (jira_Key created) r]
                           in case r of
                                Inl err \<Rightarrow> (Ret (Some err), tr)
                              | Inr jIssue \<Rightarrow>
                                  (let tr = tr @ [Log (Debugf_Created (jira_Key jIssue))];
                                       c = CompareComments e tr (Issue issue) jIssue
                                   in (Ret c, tr @ [Compare_Comments (Issue issue) jIssue c]))))))"

text \<open>
  The inner loop of \<open>CompareIssues\<close> over the JIRA issues: it returns \<open>found\<close>. The error
  of reading the GitHub ID field is dropped by the source (\<^verbatim>\<open>id, _ := ...\<close>).
\<close>

fun CompareIssues_scan ::
  "config \<Rightarrow> env \<Rightarrow> github_issue \<Rightarrow> TranslatedIssue \<Rightarrow> jira_issue list \<Rightarrow> event list \<Rightarrow>
   bool outcome \<times> event list" where
  "CompareIssues_scan config e ghIssue ghTranslatedIssue [] tr = (Ret False, tr)"
| "CompareIssues_scan config e ghIssue ghTranslatedIssue (jIssue # jiraIssues) tr =
     (case jira_Fields jIssue of
        None \<Rightarrow> (Panic, tr)
      | Some jf \<Rightarrow>
          (let (id, err) = Unknowns_Int (fields_Unknowns jf) (GetFieldKey config GitHubID) in
           case issue_ID ghIssue of
             None \<Rightarrow> (Panic, tr)
           | Some ghID \<Rightarrow>
               (if ghID = id then
                  (case UpdateIssue config e ghTranslatedIssue jIssue tr of
                     (Panic, tr) \<Rightarrow> (Panic, tr)
                   | (Ret None, tr) \<Rightarrow> (Ret True, tr)
                   | (Ret (Some err), tr) \<Rightarrow>
                       (Ret True, tr @ [Log (Errorf_Updating (jira_Key jIssue) err)]))
                else CompareIssues_scan config e ghIssue ghTranslatedIssue jiraIssues tr)))"

text \<open>The outer loop of \<open>CompareIssues\<close> over the GitHub issues.\<close>

fun CompareIssues_loop ::
  "config \<Rightarrow> env \<Rightarrow> github_issue list \<Rightarrow> jira_issue list \<Rightarrow> event list \<Rightarrow>
   unit outcome \<times> event list" where
  "CompareIssues_loop config e [] jiraIssues tr = (Ret (), tr)"
| "CompareIssues_loop config e (ghIssue # ghIssues) jiraIssues tr =
     (case NewTranslatedIssue ghIssue of
        Panic \<Rightarrow> (Panic, tr)
      | Ret ghTranslatedIssue \<Rightarrow>
          (case CompareIssues_scan config e ghIssue ghTranslatedIssue jiraIssues tr of
             (Panic, tr) \<Rightarrow> (Panic, tr)
           | (Ret found, tr) \<Rightarrow>
               (if found then CompareIssues_loop config e ghIssues jiraIssues tr
                else
                  (case CreateIssue config e ghTranslatedIssue tr of
                     (Panic, tr) \<Rightarrow> (Panic, tr)
                   | (Ret None, tr) \<Rightarrow> CompareIssues_loop config e ghIssues jiraIssues tr
                   | (Ret (Some err), tr) \<Rightarrow>
                       (case issue_Number ghIssue of
                          None \<Rightarrow> (Panic, tr)
                        | Some number \<Rightarrow>
                            CompareIssues_loop config e ghIssues jiraIssues
                              (tr @ [Log (Errorf_Creating number err)]))))))"

definition CompareIssues :: "config \<Rightarrow> env \<Rightarrow> event list \<Rightarrow> error option outcome \<times> event list" where
  "CompareIssues config e tr0 =
     (let tr = tr0 @ [Log Debug_Collecting];
          r = gh_ListIssues e tr;
          tr = tr @ [GH_ListIssues r]
      in case r of
           Inl err \<Rightarrow> (Ret (Some err), tr)
         | Inr ghIssues \<Rightarrow>
             (if length ghIssues = 0 then (Ret None, tr @ [Log Info_NoIssues])
              else
                (let ids = map GetID ghIssues;
                     r = jira_ListIssues e tr ids;
                     tr = tr @ [JIRA_ListIssues ids r]
                 in case r of
                      Inl err \<Rightarrow> (Ret (Some err), tr)
                    | Inr jiraIssues \<Rightarrow>
                        (case CompareIssues_loop config e ghIssues jiraIssues
                                (tr @ [Log Debug_CollectedJIRA]) of
                           (Panic, tr) \<Rightarrow> (Panic, tr)
                         | (Ret u, tr) \<Rightarrow> (Ret None, tr)))))"














section \<open>Example inputs\<close>

definition ex_config :: config where
  "ex_config = \<lparr>fieldIDs = \<lparr>githubID = ''10001'', githubNumber = ''10002'',
                  githubLabels = ''10003'', githubReporter = ''10004'',
                  githubStatus = ''10005'', lastUpdate = ''10006''\<rparr>,
                projects = [(''org/repo'', \<lparr>project_ID = ''1'', project_Key = ''PRJ''\<rparr>)]\<rparr>"

definition ex_issue :: "int \<Rightarrow> int \<Rightarrow> string \<Rightarrow> github_issue" where
  "ex_issue i n title =
     \<lparr>issue_ID = Some i, issue_Number = Some n, issue_Title = Some title,
      issue_Body = Some ''text'', issue_State = Some ''open'',
      issue_User = Some \<lparr>user_Login = Some ''ann''\<rparr>,
      issue_Labels = [\<lparr>label_Name = Some ''bug''\<rparr>, \<lparr>label_Name = Some ''ui''\<rparr>]\<rparr>"

definition ex_translated :: "int \<Rightarrow> int \<Rightarrow> string \<Rightarrow> TranslatedIssue" where
  "ex_translated i n title = \<lparr>Issue = ex_issue i n title, TranslatedBody = Some ''text''\<rparr>"

text \<open>A JIRA issue with the given key, summary and custom fields.\<close>

definition ex_jira :: "string \<Rightarrow> string \<Rightarrow> unknowns \<Rightarrow> jira_issue" where
  "ex_jira key summary u =
     \<lparr>jira_Key = key, jira_ID = ''500'',
      jira_Fields = Some \<lparr>fields_Type = \<lparr>type_Name = ''Task''\<rparr>,
                          fields_Project = \<lparr>project_ID = ''1'', project_Key = ''PRJ''\<rparr>,
                          fields_Summary = summary, fields_Description = ''text'',
                          fields_Unknowns = u\<rparr>\<rparr>"

text \<open>The custom fields of a JIRA issue linked to GitHub id \<open>i\<close>, with the given labels field.\<close>

definition ex_unknowns :: "int \<Rightarrow> jvalue \<Rightarrow> unknowns" where
  "ex_unknowns i labels =
     [(''customfield_10001'', JInt i), (''customfield_10005'', JString ''open''),
      (''customfield_10004'', JString ''ann''), (''customfield_10003'', labels)]"

text \<open>
  Trackers that answer the same whatever the history: the two lists, and the answers to
  create, update and get.
\<close>

definition ex_env ::
  "github_issue list \<Rightarrow> jira_issue list \<Rightarrow> (jira_issue \<Rightarrow> error + jira_issue) \<Rightarrow>
   (jira_issue \<Rightarrow> error + jira_issue) \<Rightarrow> (string \<Rightarrow> error + jira_issue) \<Rightarrow> env" where
  "ex_env ghs js create update get =
     \<lparr>gh_ListIssues = (\<lambda>tr. Inr ghs), gh_GetRepo = ''org/repo'',
      jira_ListIssues = (\<lambda>tr ids. Inr js),
      jira_CreateIssue = (\<lambda>tr i. create i),
      jira_UpdateIssue = (\<lambda>tr i. update i),
      jira_GetIssue = (\<lambda>tr k. get k),
      CompareComments = (\<lambda>tr g j. None),
      time_Now = (\<lambda>tr. ''2017-01-01T00:00:00.0+0000'')\<rparr>"

definition ex_created :: "jira_issue \<Rightarrow> error + jira_issue" where
  "ex_created i = Inr (i\<lparr>jira_Key := ''PRJ-9''\<rparr>)"

definition ex_failed :: "'a \<Rightarrow> error + jira_issue" where
  "ex_failed x = Inl (Error ''timeout'')"

definition ex_found :: "jira_issue \<Rightarrow> string \<Rightarrow> error + jira_issue" where
  "ex_found j k = Inr j"

text \<open>The issue that \<open>CreateIssue\<close> submits for \<open>ex_issue 8 2 ''U''\<close>.\<close>

definition ex_create_payload :: jira_issue where
  "ex_create_payload =
     \<lparr>jira_Key = [], jira_ID = [],
      jira_Fields = Some \<lparr>fields_Type = \<lparr>type_Name = ''Task''\<rparr>,
                          fields_Project = \<lparr>project_ID = ''1'', project_Key = ''PRJ''\<rparr>,
                          fields_Summary = ''U'', fields_Description = ''text'',
                          fields_Unknowns =
                            [(''customfield_10001'', JInt 8),
                             (''customfield_10002'', JInt 2),
                             (''customfield_10005'', JString ''open''),
                             (''customfield_10004'', JString ''ann''),
                             (''customfield_10003'', JString ''bug,ui''),
                             (''customfield_10006'', JString ''2017-01-01T00:00:00.0+0000'')]\<rparr>\<rparr>"

text \<open>The issue that \<open>UpdateIssue\<close> submits for \<open>ex_issue 7 1 ''T''\<close> and the key \<open>PRJ-1\<close>.\<close>

definition ex_update_payload :: jira_issue where
  "ex_update_payload =
     \<lparr>jira_Key = ''PRJ-1'', jira_ID = ''500'',
      jira_Fields = Some \<lparr>fields_Type = \<lparr>type_Name = ''Task''\<rparr>,
                          fields_Project = \<lparr>project_ID = [], project_Key = []\<rparr>,
                          fields_Summary = ''T'', fields_Description = ''text'',
                          fields_Unknowns =
                            [(''customfield_10005'', JString ''open''),
                             (''customfield_10004'', JString ''ann''),
                             (''customfield_10003'', JString ''bug,ui''),
                             (''customfield_10006'', JString ''2017-01-01T00:00:00.0+0000'')]\<rparr>\<rparr>"

section \<open>Properties of the change test\<close>

lemmas ex_defs = ex_config_def ex_issue_def ex_translated_def ex_jira_def ex_unknowns_def
  ex_env_def ex_created_def ex_failed_def ex_found_def
  ex_update_payload_def ex_create_payload_def

lemma DidIssueChange_trace:
  "DidIssueChange config gh j tr = (Ret b, tr') \<Longrightarrow>
   tr' = tr @ [Log (Debugf_Comparing (GetNumber (Issue gh)) (jira_Key j)),
               Log (Debugf_AnyDifferences b)]"
  by (auto simp: DidIssueChange_def Let_def split: option.splits prod.splits outcome.splits)


lemma DidIssueChange_fst:
  "fst (DidIssueChange config gh j tr) = fst (DidIssueChange config gh j tr')"
  by (auto simp: DidIssueChange_def Let_def split: option.splits prod.splits outcome.splits)

text \<open>
  Claim C1. For a GitHub issue whose state, author login and label names are present and a
  JIRA issue with fields, \<open>DidIssueChange\<close> returns true exactly when the summary differs
  from the title, or the description differs from the translated body, or the state
  field is unreadable or differs from the state, or the reporter field is unreadable or
  differs from the login, or the labels field is unreadable and differs from the label
  names joined by commas in their order. A readable labels field never makes the result
  true, whatever it holds.
\<close>

theorem DidIssueChange_iff:
  assumes "jira_Fields jIssue = Some jf"
      and "issue_State (Issue ghIssue) = Some state"
      and "User_Login (Issue ghIssue) = Some login"
      and "label_names (issue_Labels (Issue ghIssue)) = Ret labels"
  shows "fst (DidIssueChange config ghIssue jIssue tr) = Ret
           (fields_Summary jf \<noteq> GetTitle (Issue ghIssue)
            \<or> fields_Description jf \<noteq> GetTranslatedBody ghIssue
            \<or> (snd (Unknowns_String (fields_Unknowns jf) (GetFieldKey config GitHubStatus)) \<noteq> None
               \<or> fst (Unknowns_String (fields_Unknowns jf) (GetFieldKey config GitHubStatus)) \<noteq> state)
            \<or> (snd (Unknowns_String (fields_Unknowns jf) (GetFieldKey config GitHubReporter)) \<noteq> None
               \<or> fst (Unknowns_String (fields_Unknowns jf) (GetFieldKey config GitHubReporter)) \<noteq> login)
            \<or> (snd (Unknowns_String (fields_Unknowns jf) (GetFieldKey config GitHubLabels)) \<noteq> None
               \<and> fst (Unknowns_String (fields_Unknowns jf) (GetFieldKey config GitHubLabels))
                   \<noteq> Join labels '',''))"
  using assms
  by (auto simp: DidIssueChange_def Let_def unreadable_or_differs_def split: prod.splits)

text \<open>
  The witness: everything matches but the labels field, which is readable and holds
  \<open>zzz\<close> where the labels are \<open>bug,ui\<close>; the result is false.
\<close>

theorem DidIssueChange_iff_witness:
  "jira_Fields (ex_jira ''PRJ-1'' ''T'' (ex_unknowns 7 (JString ''zzz''))) =
     Some \<lparr>fields_Type = \<lparr>type_Name = ''Task''\<rparr>,
           fields_Project = \<lparr>project_ID = ''1'', project_Key = ''PRJ''\<rparr>,
           fields_Summary = ''T'', fields_Description = ''text'',
           fields_Unknowns = ex_unknowns 7 (JString ''zzz'')\<rparr>
   \<and> issue_State (Issue (ex_translated 7 1 ''T'')) = Some ''open''
   \<and> User_Login (Issue (ex_translated 7 1 ''T'')) = Some ''ann''
   \<and> label_names (issue_Labels (Issue (ex_translated 7 1 ''T''))) = Ret [''bug'', ''ui'']
   \<and> fst (DidIssueChange ex_config (ex_translated 7 1 ''T'')
             (ex_jira ''PRJ-1'' ''T'' (ex_unknowns 7 (JString ''zzz''))) []) = Ret False"
proof -
  have h1: "jira_Fields (ex_jira ''PRJ-1'' ''T'' (ex_unknowns 7 (JString ''zzz''))) =
     Some \<lparr>fields_Type = \<lparr>type_Name = ''Task''\<rparr>,
           fields_Project = \<lparr>project_ID = ''1'', project_Key = ''PRJ''\<rparr>,
           fields_Summary = ''T'', fields_Description = ''text'',
           fields_Unknowns = ex_unknowns 7 (JString ''zzz'')\<rparr>"
    by (simp add: ex_jira_def)
  have h2: "issue_State (Issue (ex_translated 7 1 ''T'')) = Some ''open''"
    by (simp add: ex_translated_def ex_issue_def)
  have h3: "User_Login (Issue (ex_translated 7 1 ''T'')) = Some ''ann''"
    by (simp add: ex_translated_def ex_issue_def User_Login_def)
  have h4: "label_names (issue_Labels (Issue (ex_translated 7 1 ''T''))) = Ret [''bug'', ''ui'']"
    by (simp add: ex_translated_def ex_issue_def)
  from DidIssueChange_iff [OF h1 h2 h3 h4, of ex_config "[]"] h1 h2 h3 h4 show ?thesis
    by (simp add: ex_defs GetTitle_def GetTranslatedBody_def Unknowns_String_def GetFieldKey_def)
qed

section \<open>Properties of the reconciliation pass\<close>

text \<open>
  Claim C4. When the GitHub listing answers with the empty list, \<open>CompareIssues\<close> returns
  the nil error, and the events of the run are the listing and two log lines: no call to
  the JIRA tracker is made.
\<close>

theorem CompareIssues_empty:
  "gh_ListIssues e (tr @ [Log Debug_Collecting]) = Inr [] \<Longrightarrow>
   CompareIssues config e tr =
     (Ret None, tr @ [Log Debug_Collecting, GH_ListIssues (Inr []), Log Info_NoIssues])"
  by (simp add: CompareIssues_def Let_def)

theorem CompareIssues_empty_witness:
  "gh_ListIssues (ex_env [] [] ex_created Inr ex_failed) ([] @ [Log Debug_Collecting]) = Inr [] \<and>
   CompareIssues ex_config (ex_env [] [] ex_created Inr ex_failed) [] =
     (Ret None, [Log Debug_Collecting, GH_ListIssues (Inr []), Log Info_NoIssues])"
  using CompareIssues_empty [of "ex_env [] [] ex_created Inr ex_failed" "[]" ex_config]
  by (simp add: ex_env_def)

lemmas eval_defs = UpdateIssue_def UpdateIssue_write_def DidIssueChange_def Let_def
        GetTitle_def GetTranslatedBody_def GetNumber_def GetID_def GetState_def GetLogin_def GetName_def
        Unknowns_String_def Unknowns_Int_def GetFieldKey_def
        unreadable_or_differs_def User_Login_def

text \<open>
  Claim C9, as amended. When \<open>DidIssueChange\<close> returns false for a linked issue,
  \<open>UpdateIssue\<close> makes no update call and reads the JIRA issue back by its key; when that
  read succeeds it hands over to the comment reconciler and returns its result, and when
  the read fails it returns the error of the read and the comment reconciler is not
  called. The whole trace of the call is given.
\<close>

theorem UpdateIssue_unchanged:
  assumes "issue_Number (Issue gh) = Some number"
      and "fst (DidIssueChange config gh j tr) = Ret False"
  shows "UpdateIssue config e gh j tr =
          (let tr1 = tr @ [Log (Debugf_Updating (jira_Key j) number),
                           Log (Debugf_Comparing (GetNumber (Issue gh)) (jira_Key j)),
                           Log (Debugf_AnyDifferences False),
                           Log (Debugf_UpToDate (jira_Key j))]
           in case jira_GetIssue e tr1 (jira_Key j) of
                Inl err \<Rightarrow>
                  (Ret (Some err),
                   tr1 @ [JIRA_GetIssue (jira_Key j) (Inl err), Log (Debugf_FailedRetrieve (jira_Key j))])
              | Inr issue \<Rightarrow>
                  (let tr2 = tr1 @ [JIRA_GetIssue (jira_Key j) (Inr issue)];
                       c = CompareComments e tr2 (Issue gh) issue
                   in (Ret c, tr2 @ [Compare_Comments (Issue gh) issue c])))"
proof -
  obtain tr' where d: "DidIssueChange config gh j (tr @ [Log (Debugf_Updating (jira_Key j) number)]) = (Ret False, tr')"
    using assms(2) DidIssueChange_fst [of config gh j tr "tr @ [Log (Debugf_Updating (jira_Key j) number)]"]
    by (metis prod.collapse)
  from DidIssueChange_trace [OF d] d assms(1) show ?thesis
    by (simp add: UpdateIssue_def UpdateIssue_write_def Let_def split: sum.splits)
qed

theorem UpdateIssue_unchanged_witness:
  "issue_Number (Issue (ex_translated 7 1 ''T'')) = Some 1
   \<and> fst (DidIssueChange ex_config (ex_translated 7 1 ''T'')
          (ex_jira ''PRJ-1'' ''T'' (ex_unknowns 7 (JString ''bug,ui''))) []) = Ret False
   \<and> UpdateIssue ex_config
       (ex_env [] [] ex_created Inr
          (ex_found (ex_jira ''PRJ-1'' ''T'' (ex_unknowns 7 (JString ''bug,ui'')))))
       (ex_translated 7 1 ''T'')
       (ex_jira ''PRJ-1'' ''T'' (ex_unknowns 7 (JString ''bug,ui''))) [] =
     (Ret None,
      [Log (Debugf_Updating ''PRJ-1'' 1), Log (Debugf_Comparing 1 ''PRJ-1''),
       Log (Debugf_AnyDifferences False), Log (Debugf_UpToDate ''PRJ-1''),
       JIRA_GetIssue ''PRJ-1'' (Inr (ex_jira ''PRJ-1'' ''T'' (ex_unknowns 7 (JString ''bug,ui'')))),
       Compare_Comments (ex_issue 7 1 ''T'')
         (ex_jira ''PRJ-1'' ''T'' (ex_unknowns 7 (JString ''bug,ui''))) None])"
proof -
  have h1: "issue_Number (Issue (ex_translated 7 1 ''T'')) = Some 1"
    by (simp add: ex_translated_def ex_issue_def)
  have h2: "fst (DidIssueChange ex_config (ex_translated 7 1 ''T'')
          (ex_jira ''PRJ-1'' ''T'' (ex_unknowns 7 (JString ''bug,ui''))) []) = Ret False"
    by (simp add: ex_defs eval_defs)
  from UpdateIssue_unchanged [OF h1 h2, of "ex_env [] [] ex_created Inr
          (ex_found (ex_jira ''PRJ-1'' ''T'' (ex_unknowns 7 (JString ''bug,ui''))))"] h1 h2
  show ?thesis
    by (simp add: ex_defs GetNumber_def Let_def)
qed

text \<open>
  The claim as stated promises the comment hand-off for every unchanged linked issue.
  With a tracker whose read fails, \<open>DidIssueChange\<close> is false and the run of
  \<open>UpdateIssue\<close> ends at the failed read.
\<close>

theorem UpdateIssue_unchanged_counterexample:
  "fst (DidIssueChange ex_config (ex_translated 7 1 ''T'')
          (ex_jira ''PRJ-1'' ''T'' (ex_unknowns 7 (JString ''bug,ui''))) []) = Ret False
   \<and> UpdateIssue ex_config (ex_env [] [] ex_created Inr ex_failed) (ex_translated 7 1 ''T'')
       (ex_jira ''PRJ-1'' ''T'' (ex_unknowns 7 (JString ''bug,ui''))) [] =
     (Ret (Some (Error ''timeout'')),
      [Log (Debugf_Updating ''PRJ-1'' 1), Log (Debugf_Comparing 1 ''PRJ-1''),
       Log (Debugf_AnyDifferences False), Log (Debugf_UpToDate ''PRJ-1''),
       JIRA_GetIssue ''PRJ-1'' (Inl (Error ''timeout'')),
       Log (Debugf_FailedRetrieve ''PRJ-1'')])"
  by (simp add: ex_defs eval_defs)



subsection \<open>The shape of the trace of one create or update\<close>













subsection \<open>One GitHub issue against the JIRA issues\<close>




subsection \<open>The loop over the GitHub issues\<close>











section \<open>Properties of the translator\<close>

subsection \<open>The matcher on heading patterns\<close>




lemma run_Bol_None:
  "p = Some c \<Longrightarrow> c \<noteq> CHR 0x0A \<Longrightarrow> run (Bol # r) p s st = None"
  by simp











subsection \<open>Rules that find nothing to rewrite\<close>














subsection \<open>The heading rules line by line\<close>










subsection \<open>Heading lines\<close>






text \<open>
  Claim C8. The two link forms: \<^verbatim>\<open>[text](http://x)\<close> becomes \<^verbatim>\<open>[text|http://x]\<close> and
  \<^verbatim>\<open><http://x>\<close> becomes \<^verbatim>\<open>[http://x]\<close>.
\<close>

theorem GitHubToJiraBody_links:
  "GitHubToJiraBody ''[text](http://x)'' = ''[text|http://x]'' \<and>
   GitHubToJiraBody ''<http://x>'' = ''[http://x]''"
  by code_simp

text \<open>
  Claim C6, evaluated. A strong span does not come out with single asterisks: the rule
  for strong text writes \<^verbatim>\<open>*bold*\<close>, the rule for emphasis then matches that output,
  and its template \<^verbatim>\<open>_$1_\<close> names the group \<^verbatim>\<open>1_\<close>, which no pattern has, so the text
  is dropped and one underscore is left.
\<close>

theorem GitHubToJiraBody_strong_lost:
  "GitHubToJiraBody ''**bold**'' = ''_'' \<and>
   GitHubToJiraBody ''__bold__'' = ''_'' \<and>
   ReplaceAllString regexStrong1 ''**bold**'' ''*$1*'' = ''*bold*'' \<and>
   ReplaceAllString regexEmphasis1 ''*bold*'' ''_$1_'' = ''_''"
  by code_simp

text \<open>
  Claim C7, evaluated. A fenced block never reaches the two rules for fences: the rule
  for inline monospace runs before them and pairs up the backquotes. The rule for a fence
  without language, applied alone, also loses the content, since its template uses group
  2 and the pattern has one group.
\<close>

theorem GitHubToJiraBody_fence_lost:
  "GitHubToJiraBody ([bq, bq, bq] @ [nl] @ ''abc'' @ [nl] @ [bq, bq, bq]) =
     ''{{}}{{'' @ [nl] @ ''abc'' @ [nl] @ ''}}{{}}'' \<and>
   GitHubToJiraBody ([bq, bq, bq] @ ''go'' @ [nl] @ ''abc'' @ [nl] @ [bq, bq, bq]) =
     ''{{}}{{go'' @ [nl] @ ''abc'' @ [nl] @ ''}}{{}}'' \<and>
   ReplaceAllString regexNoFormat ([bq, bq, bq] @ [nl] @ ''abc'' @ [nl] @ [bq, bq, bq])
     (''{noformat}'' @ [bsl, CHR ''n''] @ ''$2'' @ [bsl, CHR ''n''] @ ''{noformat}'') =
     ''{noformat}'' @ [bsl, CHR ''n''] @ [bsl, CHR ''n''] @ ''{noformat}''"
  by code_simp

end
